theory Spec2Isabelle
  imports Main "HOL-Library.Word" "HOL-Library.Multiset"
begin

unbundle bit_operations_syntax

section \<open>Strings, buffers and thrown values\<close>

text \<open>
  A JavaScript string is a sequence of UTF-16 code units, and a Node \<^verbatim>\<open>Buffer\<close> is a
  sequence of bytes. String literals of the source are written \<open>lit ''...''\<close>.
\<close>

type_synonym js_string = "16 word list"
type_synonym bytes = "8 word list"

definition lit :: "string \<Rightarrow> js_string" where
  "lit s = map (\<lambda>c. of_nat (of_char c)) s"

text \<open>
  A template literal \<^verbatim>\<open>`${n}`\<close> renders a non-negative integer in decimal.
\<close>

definition digit_unit :: "nat \<Rightarrow> 16 word" where
  "digit_unit d = of_nat (48 + d)"

fun decimal :: "nat \<Rightarrow> js_string" where
  "decimal n = (if n < 10 then [digit_unit n] else decimal (n div 10) @ [digit_unit (n mod 10)])"

declare decimal.simps [simp del]

section \<open>S3Service.generateS3Key\<close>

text \<open>
  The character class \<^verbatim>\<open>[a-zA-Z0-9.-]\<close> of the regular expression in
  \<^verbatim>\<open>generateS3Key\<close>. The expression has no \<^verbatim>\<open>u\<close> flag, so it is matched
  code unit by code unit.
\<close>

definition in_class :: "16 word \<Rightarrow> bool" where
  "in_class c \<longleftrightarrow>
     (0x61 \<le> c \<and> c \<le> 0x7A) \<or> (0x41 \<le> c \<and> c \<le> 0x5A) \<or> (0x30 \<le> c \<and> c \<le> 0x39)
     \<or> c = 0x2E \<or> c = 0x2D"

definition underscore :: "16 word" where
  "underscore = 0x5F"

text \<open>\<^verbatim>\<open>originalName.replace(/[^a-zA-Z0-9.-]/g, '_')\<close>\<close>

definition sanitize :: "js_string \<Rightarrow> js_string" where
  "sanitize originalName = map (\<lambda>c. if in_class c then c else underscore) originalName"

text \<open>
  \<^verbatim>\<open>generateS3Key\<close> reads the clock (\<^verbatim>\<open>Date.now()\<close>) and draws a random string
  (\<^verbatim>\<open>Math.random().toString(36).substring(2, 15)\<close>); both are inputs here.
\<close>

definition generateS3Key :: "nat \<Rightarrow> js_string \<Rightarrow> js_string \<Rightarrow> js_string" where
  "generateS3Key timestamp randomString originalName =
     lit ''documents/'' @ decimal timestamp @ lit ''-'' @ randomString @ lit ''-''
       @ sanitize originalName"

section \<open>Buffer.toString('utf-8')\<close>

text \<open>
  Node decodes a buffer as UTF-8 and yields a string of UTF-16 code units. An ill-formed
  sequence is replaced by U+FFFD, one replacement per maximal ill-formed prefix, and
  decoding resumes at the first byte that did not fit. No byte order mark is removed.
\<close>

definition is_cont :: "8 word \<Rightarrow> bool" where
  "is_cont b \<longleftrightarrow> 0x80 \<le> b \<and> b \<le> 0xBF"

definition second_ok :: "8 word \<Rightarrow> 8 word \<Rightarrow> bool" where
  "second_ok b0 b1 \<longleftrightarrow>
     (if b0 = 0xE0 then 0xA0 \<le> b1 \<and> b1 \<le> 0xBF
      else if b0 = 0xED then 0x80 \<le> b1 \<and> b1 \<le> 0x9F
      else if b0 = 0xF0 then 0x90 \<le> b1 \<and> b1 \<le> 0xBF
      else if b0 = 0xF4 then 0x80 \<le> b1 \<and> b1 \<le> 0x8F
      else is_cont b1)"

definition replacement :: nat where
  "replacement = 0xFFFD"

definition low6 :: "8 word \<Rightarrow> nat" where
  "low6 b = unat b mod 64"

fun utf8_decode :: "bytes \<Rightarrow> nat list" where
  "utf8_decode [] = []"
| "utf8_decode (b0 # bs) =
     (if b0 < 0x80 then unat b0 # utf8_decode bs
      else if 0xC2 \<le> b0 \<and> b0 \<le> 0xDF then
        (case bs of
           [] \<Rightarrow> [replacement]
         | b1 # r1 \<Rightarrow>
             if is_cont b1 then (unat b0 mod 32 * 64 + low6 b1) # utf8_decode r1
             else replacement # utf8_decode bs)
      else if 0xE0 \<le> b0 \<and> b0 \<le> 0xEF then
        (case bs of
           [] \<Rightarrow> [replacement]
         | b1 # r1 \<Rightarrow>
             if second_ok b0 b1 then
               (case r1 of
                  [] \<Rightarrow> [replacement]
                | b2 # r2 \<Rightarrow>
                    if is_cont b2
                    then (unat b0 mod 16 * 4096 + low6 b1 * 64 + low6 b2) # utf8_decode r2
                    else replacement # utf8_decode r1)
             else replacement # utf8_decode bs)
      else if 0xF0 \<le> b0 \<and> b0 \<le> 0xF4 then
        (case bs of
           [] \<Rightarrow> [replacement]
         | b1 # r1 \<Rightarrow>
             if second_ok b0 b1 then
               (case r1 of
                  [] \<Rightarrow> [replacement]
                | b2 # r2 \<Rightarrow>
                    if is_cont b2 then
                      (case r2 of
                         [] \<Rightarrow> [replacement]
                       | b3 # r3 \<Rightarrow>
                           if is_cont b3
                           then (unat b0 mod 8 * 262144 + low6 b1 * 4096 + low6 b2 * 64 + low6 b3)
                                  # utf8_decode r3
                           else replacement # utf8_decode r2)
                    else replacement # utf8_decode r1)
             else replacement # utf8_decode bs)
      else replacement # utf8_decode bs)"

definition utf16_units :: "nat \<Rightarrow> js_string" where
  "utf16_units cp =
     (if cp < 0x10000 then [of_nat cp]
      else [of_nat (0xD800 + (cp - 0x10000) div 0x400), of_nat (0xDC00 + (cp - 0x10000) mod 0x400)])"

definition toString_utf8 :: "bytes \<Rightarrow> js_string" where
  "toString_utf8 b = concat (map utf16_units (utf8_decode b))"

section \<open>ObjectId\<close>

text \<open>
  A MongoDB \<^verbatim>\<open>ObjectId\<close> is a 12-byte value. \<^verbatim>\<open>toString()\<close> renders it as 24
  lower-case hexadecimal digits; the constructor accepts a string of 24 hexadecimal digits
  of either case and throws on any other string.
\<close>

type_synonym ObjectId = "96 word"

definition hex_unit :: "nat \<Rightarrow> 16 word" where
  "hex_unit d = (if d < 10 then of_nat (48 + d) else of_nat (87 + d))"

fun hex_digits :: "nat \<Rightarrow> nat \<Rightarrow> js_string" where
  "hex_digits 0 n = []"
| "hex_digits (Suc k) n = hex_digits k (n div 16) @ [hex_unit (n mod 16)]"

definition toHexString :: "ObjectId \<Rightarrow> js_string" where
  "toHexString oid = hex_digits 24 (unat oid)"

definition hex_value :: "16 word \<Rightarrow> nat option" where
  "hex_value c =
     (if 0x30 \<le> c \<and> c \<le> 0x39 then Some (unat c - 48)
      else if 0x61 \<le> c \<and> c \<le> 0x66 then Some (unat c - 87)
      else if 0x41 \<le> c \<and> c \<le> 0x46 then Some (unat c - 55)
      else None)"

fun hex_number :: "nat \<Rightarrow> js_string \<Rightarrow> nat option" where
  "hex_number acc [] = Some acc"
| "hex_number acc (c # cs) =
     (case hex_value c of None \<Rightarrow> None | Some v \<Rightarrow> hex_number (16 * acc + v) cs)"

definition ObjectId_of_string :: "js_string \<Rightarrow> ObjectId option" where
  "ObjectId_of_string s =
     (if length s = 24 then map_option of_nat (hex_number 0 s) else None)"

section \<open>Thrown values and the outside world\<close>

text \<open>
  A thrown value is an \<^verbatim>\<open>Error\<close> carrying its message, or some value that is not an
  instance of \<^verbatim>\<open>Error\<close>. Every catch block of the two services reads the message with
  \<^verbatim>\<open>error instanceof Error ? error.message : 'Unknown error'\<close>.
\<close>

datatype thrown = Error js_string | NonError

definition message_of :: "thrown \<Rightarrow> js_string" where
  "message_of error = (case error of Error m \<Rightarrow> m | NonError \<Rightarrow> lit ''Unknown error'')"

text \<open>
  The entity class \<^verbatim>\<open>Document\<close>: \<open>name\<close> and the three optional (nullable) columns
  \<open>path\<close>, \<open>buffer\<close> and \<open>s3Key\<close>, which \<^verbatim>\<open>createDocument\<close> assigns, and the columns
  \<open>id\<close> (\<^verbatim>\<open>@ObjectIdColumn\<close>), \<open>createdAt\<close> (\<^verbatim>\<open>@CreateDateColumn\<close>) and \<open>updatedAt\<close>
  (\<^verbatim>\<open>@UpdateDateColumn\<close>), which are assigned when the entity is saved.
  \<open>Document_fields\<close> is the object before \<^verbatim>\<open>save\<close>, \<open>Document\<close> the object after it.
  A date is its time in milliseconds.
\<close>

record Document_fields =
  name :: js_string
  path :: "js_string option"
  buffer :: "bytes option"
  s3Key :: "js_string option"

record Document = Document_fields +
  id :: ObjectId
  createdAt :: nat
  updatedAt :: nat

definition new_Document :: Document_fields where
  "new_Document = \<lparr>name = [], path = None, buffer = None, s3Key = None\<rparr>"

text \<open>The calls that leave the process, in the order they are made.\<close>

datatype io_event =
    ReadFile js_string
  | Unlink js_string
  | PutObject js_string bytes
  | GetObject js_string
  | DeleteObject js_string
  | RepoSave
  | RepoFindOneBy ObjectId
  | RepoFind
  | RepoDelete ObjectId

text \<open>
  The world outside the service: the file system, the S3 bucket, the documents collection
  in insertion order, the clock, the ids the MongoDB driver will generate, the strings
  \<^verbatim>\<open>Math.random().toString(36).substring(2, 15)\<close> will yield, and the outcome of the
  coming external calls: \<open>faults\<close> holds, for each coming call in turn, the value it rejects
  with, or \<open>None\<close> when the call goes through (as does every call past the end of the
  list). \<open>trace\<close> records the external calls made so far.
\<close>

record world =
  files :: "js_string \<Rightarrow> bytes option"
  bucket :: "js_string \<Rightarrow> bytes option"
  repo :: "Document list"
  clock :: nat
  oids :: "nat \<Rightarrow> ObjectId"
  issued :: nat
  randoms :: "nat \<Rightarrow> js_string"
  drawn :: nat
  faults :: "thrown option list"
  trace :: "io_event list"

text \<open>
  An asynchronous operation takes the world and returns it changed, together with the
  value it resolves to (\<open>Inr\<close>) or the value it rejects with (\<open>Inl\<close>).
\<close>

type_synonym 'a io = "world \<Rightarrow> (thrown + 'a) \<times> world"

definition io_return :: "'a \<Rightarrow> 'a io" where
  "io_return x w = (Inr x, w)"

definition io_throw :: "thrown \<Rightarrow> 'a io" where
  "io_throw e w = (Inl e, w)"

definition io_bind :: "'a io \<Rightarrow> ('a \<Rightarrow> 'b io) \<Rightarrow> 'b io" where
  "io_bind m f w = (case m w of (Inl e, w') \<Rightarrow> (Inl e, w') | (Inr x, w') \<Rightarrow> f x w')"

definition io_catch :: "'a io \<Rightarrow> (thrown \<Rightarrow> 'a io) \<Rightarrow> 'a io" where
  "io_catch m h w = (case m w of (Inl e, w') \<Rightarrow> h e w' | (Inr x, w') \<Rightarrow> (Inr x, w'))"

text \<open>An external call is recorded and consumes the next scheduled outcome.\<close>

definition next_fault :: "world \<Rightarrow> thrown option" where
  "next_fault w = (case faults w of [] \<Rightarrow> None | f # _ \<Rightarrow> f)"

definition called :: "io_event \<Rightarrow> world \<Rightarrow> world" where
  "called ev w = w\<lparr>faults := tl (faults w), trace := trace w @ [ev]\<rparr>"

definition external :: "io_event \<Rightarrow> unit io" where
  "external ev w =
     (case next_fault w of
        Some e \<Rightarrow> (Inl e, called ev w)
      | None \<Rightarrow> (Inr (), called ev w))"

subsection \<open>fs/promises\<close>

definition ENOENT :: "string \<Rightarrow> js_string \<Rightarrow> thrown" where
  "ENOENT syscall p =
     Error (lit ''ENOENT: no such file or directory, '' @ lit syscall @ [0x20, 0x27] @ p @ [0x27])"

definition fs_readFile :: "js_string \<Rightarrow> bytes io" where
  "fs_readFile p =
     io_bind (external (ReadFile p)) (\<lambda>_ w.
       case files w p of
         None \<Rightarrow> (Inl (ENOENT ''open'' p), w)
       | Some content \<Rightarrow> (Inr content, w))"

definition fs_readFile_utf8 :: "js_string \<Rightarrow> js_string io" where
  "fs_readFile_utf8 p = io_bind (fs_readFile p) (\<lambda>content. io_return (toString_utf8 content))"

definition fs_unlink :: "js_string \<Rightarrow> unit io" where
  "fs_unlink p =
     io_bind (external (Unlink p)) (\<lambda>_ w.
       case files w p of
         None \<Rightarrow> (Inl (ENOENT ''unlink'' p), w)
       | Some _ \<Rightarrow> (Inr (), w\<lparr>files := (files w)(p := None)\<rparr>))"

subsection \<open>The S3 client\<close>

text \<open>
  \<^verbatim>\<open>s3Client.send\<close> of the three commands, on the one configured bucket. The response
  of \<^verbatim>\<open>GetObjectCommand\<close> carries an optional \<^verbatim>\<open>Body\<close>.
\<close>

definition send_PutObject :: "js_string \<Rightarrow> bytes \<Rightarrow> unit io" where
  "send_PutObject key body =
     io_bind (external (PutObject key body)) (\<lambda>_ w.
       (Inr (), w\<lparr>bucket := (bucket w)(key \<mapsto> body)\<rparr>))"

definition send_GetObject :: "js_string \<Rightarrow> bytes option io" where
  "send_GetObject key =
     io_bind (external (GetObject key)) (\<lambda>_ w.
       case bucket w key of
         None \<Rightarrow> (Inl (Error (lit ''The specified key does not exist.'')), w)
       | Some body \<Rightarrow> (Inr (Some body), w))"

definition send_DeleteObject :: "js_string \<Rightarrow> unit io" where
  "send_DeleteObject key =
     io_bind (external (DeleteObject key)) (\<lambda>_ w.
       (Inr (), w\<lparr>bucket := (bucket w)(key := None)\<rparr>))"

subsection \<open>The metadata store\<close>

text \<open>
  Modelled from the spec: the repository is TypeORM's \<^verbatim>\<open>MongoRepository\<close> of the entity,
  whose code is not among the sources; section 4.3 of the spec gives its contract.
  \<^verbatim>\<open>save\<close> assigns id and timestamps and appends the record (MongoDB rejects an id that
  is already stored), \<^verbatim>\<open>findOneBy\<close> returns the record of an id or nothing,
  \<^verbatim>\<open>find\<close> returns all records in the requested order, equal keys in insertion order,
  and \<^verbatim>\<open>delete\<close> removes the record of an id.
\<close>

datatype direction = ASC | DESC

definition order_by :: "(Document \<Rightarrow> nat) \<Rightarrow> direction \<Rightarrow> Document list \<Rightarrow> Document list" where
  "order_by field dir ds =
     (case dir of
        ASC \<Rightarrow> sort_key (\<lambda>d. int (field d)) ds
      | DESC \<Rightarrow> sort_key (\<lambda>d. - int (field d)) ds)"

definition saved_as :: "Document_fields \<Rightarrow> world \<Rightarrow> Document" where
  "saved_as document w =
     \<lparr>name = name document, path = path document, buffer = buffer document,
      s3Key = s3Key document, id = oids w (issued w), createdAt = clock w,
      updatedAt = clock w\<rparr>"

definition repo_save :: "Document_fields \<Rightarrow> Document io" where
  "repo_save document =
     io_bind (external RepoSave) (\<lambda>_ w.
       let saved = saved_as document w;
           w' = w\<lparr>issued := Suc (issued w)\<rparr>
       in if id saved \<in> id ` set (repo w)
          then (Inl (Error (lit ''E11000 duplicate key error'')), w')
          else (Inr saved, w'\<lparr>repo := repo w @ [saved]\<rparr>))"

definition repo_findOneBy :: "ObjectId \<Rightarrow> Document option io" where
  "repo_findOneBy objectId =
     io_bind (external (RepoFindOneBy objectId)) (\<lambda>_ w.
       (Inr (find (\<lambda>d. id d = objectId) (repo w)), w))"

definition repo_find :: "(Document \<Rightarrow> nat) \<Rightarrow> direction \<Rightarrow> Document list io" where
  "repo_find field dir =
     io_bind (external RepoFind) (\<lambda>_ w. (Inr (order_by field dir (repo w)), w))"

definition repo_delete :: "ObjectId \<Rightarrow> unit io" where
  "repo_delete objectId =
     io_bind (external (RepoDelete objectId)) (\<lambda>_ w.
       (Inr (), w\<lparr>repo := filter (\<lambda>d. id d \<noteq> objectId) (repo w)\<rparr>))"

section \<open>BaseConfig\<close>

text \<open>
  \<^verbatim>\<open>STORAGE_TYPE\<close> is the environment variable, or \<^verbatim>\<open>'filesystem'\<close> when the
  variable is unset or empty. The service operations below take its value as \<open>cfg\<close>.
\<close>

definition STORAGE_TYPE :: "js_string option \<Rightarrow> js_string" where
  "STORAGE_TYPE env =
     (case env of None \<Rightarrow> lit ''filesystem'' | Some v \<Rightarrow> if v = [] then lit ''filesystem'' else v)"

definition isMongoDBStorage :: "js_string \<Rightarrow> bool" where
  "isMongoDBStorage cfg \<longleftrightarrow> cfg = lit ''mongodb''"

definition isFileSystemStorage :: "js_string \<Rightarrow> bool" where
  "isFileSystemStorage cfg \<longleftrightarrow> cfg = lit ''filesystem''"

definition isS3Storage :: "js_string \<Rightarrow> bool" where
  "isS3Storage cfg \<longleftrightarrow> cfg = lit ''s3''"

section \<open>S3Service\<close>

text \<open>
  \<^verbatim>\<open>uploadFile\<close> without its optional content type, which \<^verbatim>\<open>createDocument\<close> never
  passes.
\<close>

definition uploadFile :: "js_string \<Rightarrow> bytes \<Rightarrow> js_string io" where
  "uploadFile key body =
     io_catch (io_bind (send_PutObject key body) (\<lambda>_. io_return key))
       (\<lambda>error. io_throw (Error (lit ''Failed to upload file to S3: '' @ message_of error)))"

definition downloadFile :: "js_string \<Rightarrow> js_string io" where
  "downloadFile key =
     io_catch
       (io_bind (send_GetObject key) (\<lambda>response_Body.
          case response_Body of
            None \<Rightarrow> io_throw (Error (lit ''No content in S3 response''))
          | Some chunks \<Rightarrow> io_return (toString_utf8 chunks)))
       (\<lambda>error. io_throw (Error (lit ''Failed to download file from S3: '' @ message_of error)))"

definition deleteFile :: "js_string \<Rightarrow> unit io" where
  "deleteFile key =
     io_catch (send_DeleteObject key)
       (\<lambda>error. io_throw (Error (lit ''Failed to delete file from S3: '' @ message_of error)))"

text \<open>\<^verbatim>\<open>generateS3Key\<close> as the service calls it: on the clock and the next random string.\<close>

definition s3Service_generateS3Key :: "js_string \<Rightarrow> js_string io" where
  "s3Service_generateS3Key originalName w =
     (Inr (generateS3Key (clock w) (randoms w (drawn w)) originalName),
      w\<lparr>drawn := Suc (drawn w)\<rparr>)"

section \<open>DocumentService\<close>

text \<open>
  \<^verbatim>\<open>if (path)\<close> and \<^verbatim>\<open>if (document.s3Key)\<close> hold for a string that is present and not
  empty; \<^verbatim>\<open>if (fileBuffer)\<close> holds for every buffer that is present, also an empty one.
\<close>

definition truthy :: "js_string option \<Rightarrow> bool" where
  "truthy s \<longleftrightarrow> (case s of None \<Rightarrow> False | Some v \<Rightarrow> v \<noteq> [])"

definition createDocument ::
  "js_string \<Rightarrow> js_string \<Rightarrow> js_string option \<Rightarrow> bytes option \<Rightarrow> Document io" where
  "createDocument cfg name' path' fileBuffer =
     (let document = new_Document\<lparr>name := name'\<rparr> in
      if isS3Storage cfg then
        io_bind
          (if fileBuffer \<noteq> None then io_return (the fileBuffer)
           else if truthy path' then fs_readFile (the path')
           else io_throw (Error (lit ''Either path or fileBuffer must be provided for S3 storage'')))
          (\<lambda>buffer'.
             io_bind (s3Service_generateS3Key name') (\<lambda>s3Key'.
             io_bind (uploadFile s3Key' buffer') (\<lambda>_.
             repo_save (document\<lparr>s3Key := Some s3Key'\<rparr>))))
      else if isMongoDBStorage cfg then
        io_bind
          (if fileBuffer \<noteq> None then io_return (document\<lparr>buffer := fileBuffer\<rparr>)
           else if truthy path' then
             io_bind (fs_readFile (the path')) (\<lambda>content.
               io_return (document\<lparr>buffer := Some content\<rparr>))
           else io_throw
             (Error (lit ''Either path or fileBuffer must be provided for MongoDB storage'')))
          repo_save
      else
        if \<not> truthy path' then io_throw (Error (lit ''Path must be provided for filesystem storage''))
        else repo_save (document\<lparr>path := path'\<rparr>))"

definition new_ObjectId :: "js_string \<Rightarrow> ObjectId io" where
  "new_ObjectId s =
     (case ObjectId_of_string s of
        None \<Rightarrow> io_throw (Error (lit ''input must be a 24 character hex string''))
      | Some objectId \<Rightarrow> io_return objectId)"

definition getDocumentById :: "js_string \<Rightarrow> Document option io" where
  "getDocumentById id' =
     io_catch (io_bind (new_ObjectId id') repo_findOneBy) (\<lambda>error. io_return None)"

definition getAllDocuments :: "Document list io" where
  "getAllDocuments = repo_find createdAt DESC"

definition getDocumentContent :: "js_string \<Rightarrow> js_string \<Rightarrow> (Document \<times> js_string) io" where
  "getDocumentContent cfg id' =
     io_bind (getDocumentById id') (\<lambda>found.
       case found of
         None \<Rightarrow> io_throw (Error (lit ''Document not found''))
       | Some document \<Rightarrow>
           io_catch
             (io_bind
                (if isS3Storage cfg \<and> truthy (s3Key document)
                 then downloadFile (the (s3Key document))
                 else if isMongoDBStorage cfg \<and> buffer document \<noteq> None
                 then io_return (toString_utf8 (the (buffer document)))
                 else if truthy (path document)
                 then fs_readFile_utf8 (the (path document))
                 else io_throw (Error (lit
                   ''Document has no valid storage location (s3Key, buffer, or path)'')))
                (\<lambda>content. io_return (document, content)))
             (\<lambda>error. io_throw
                (Error (lit ''Failed to read document content: '' @ message_of error))))"

definition deleteDocument :: "js_string \<Rightarrow> js_string \<Rightarrow> unit io" where
  "deleteDocument cfg id' =
     io_bind (getDocumentById id') (\<lambda>found.
       case found of
         None \<Rightarrow> io_throw (Error (lit ''Document not found''))
       | Some document \<Rightarrow>
           io_catch
             (io_bind
                (if isS3Storage cfg \<and> truthy (s3Key document)
                 then deleteFile (the (s3Key document))
                 else if isMongoDBStorage cfg then io_return ()
                 else if truthy (path document)
                 then io_catch (fs_unlink (the (path document))) (\<lambda>error. io_return ())
                 else io_return ())
                (\<lambda>_. repo_delete (id document)))
             (\<lambda>error. io_throw (Error (lit ''Failed to delete document: '' @ message_of error))))"

section \<open>Notions used to state the properties\<close>

text \<open>
  The backend in force: the branch that the chain
  \<^verbatim>\<open>if (isS3Storage()) ... else if (isMongoDBStorage()) ... else ...\<close> of
  \<^verbatim>\<open>createDocument\<close> takes.
\<close>

datatype backend = Filesystem | EmbeddedBlob | ObjectStorage

definition active_backend :: "js_string \<Rightarrow> backend" where
  "active_backend cfg =
     (if isS3Storage cfg then ObjectStorage
      else if isMongoDBStorage cfg then EmbeddedBlob
      else Filesystem)"

text \<open>The number of locator fields of a record that are populated.\<close>

definition populated :: "Document \<Rightarrow> nat" where
  "populated d =
     (if truthy (path d) then 1 else 0) + (if buffer d \<noteq> None then 1 else 0)
       + (if truthy (s3Key d) then 1 else 0)"

text \<open>
  The content a caller supplies to \<^verbatim>\<open>createDocument\<close> as the backend requires it: under
  S3 and MongoDB the buffer, or else the bytes of the file at the path; under the file
  system the bytes of the file at the path.
\<close>

definition supplied ::
  "js_string \<Rightarrow> js_string option \<Rightarrow> bytes option \<Rightarrow> world \<Rightarrow> bytes option" where
  "supplied cfg path' fileBuffer w =
     (if active_backend cfg \<noteq> Filesystem \<and> fileBuffer \<noteq> None then fileBuffer
      else if truthy path' then files w (the path')
      else None)"

text \<open>The next \<open>k\<close> external calls go through.\<close>

definition no_faults :: "nat \<Rightarrow> world \<Rightarrow> bool" where
  "no_faults k w \<longleftrightarrow> list_all (\<lambda>f. f = None) (take k (faults w))"

text \<open>The file reads among recorded calls.\<close>

definition is_read :: "io_event \<Rightarrow> bool" where
  "is_read ev = (case ev of ReadFile _ \<Rightarrow> True | _ \<Rightarrow> False)"

text \<open>Whether the collection holds a record for an id string.\<close>

definition record_exists :: "world \<Rightarrow> js_string \<Rightarrow> bool" where
  "record_exists w id' =
     (case ObjectId_of_string id' of
        None \<Rightarrow> False
      | Some objectId \<Rightarrow> objectId \<in> id ` set (repo w))"

text \<open>The messages of the two services that the properties name.\<close>

definition not_found :: thrown where
  "not_found = Error (lit ''Document not found'')"

definition no_valid_location :: thrown where
  "no_valid_location =
     Error (lit ''Failed to read document content: ''
       @ lit ''Document has no valid storage location (s3Key, buffer, or path)'')"

definition deletion_failed :: "js_string \<Rightarrow> thrown" where
  "deletion_failed cause = Error (lit ''Failed to delete document: '' @ cause)"

section \<open>Example worlds\<close>

definition hello :: bytes where
  "hello = [0x68, 0x65, 0x6C, 0x6C, 0x6F]"

text \<open>
  An empty collection and an empty bucket; the file \<^verbatim>\<open>/tmp/note.txt\<close> holds the bytes
  of \<^verbatim>\<open>hello\<close>.
\<close>

definition fresh_world :: "thrown option list \<Rightarrow> world" where
  "fresh_world fs =
     \<lparr>files = [lit ''/tmp/note.txt'' \<mapsto> hello], bucket = Map.empty, repo = [],
      clock = 1700000000000, oids = (\<lambda>n. 0x507f1f77bcf86cd799439011 + of_nat n), issued = 0,
      randoms = (\<lambda>n. lit ''4fzyo82mvyr''), drawn = 0, faults = fs, trace = []\<rparr>"

text \<open>
  The records that \<^verbatim>\<open>createDocument\<close> makes of \<^verbatim>\<open>note.txt\<close> in that world: under the
  file system from the path, under MongoDB and under S3 from a buffer.
\<close>

definition filed_note :: Document where
  "filed_note =
     \<lparr>name = lit ''note.txt'', path = Some (lit ''/tmp/note.txt''), buffer = None, s3Key = None,
      id = 0x507f1f77bcf86cd799439011, createdAt = 1700000000000, updatedAt = 1700000000000\<rparr>"

definition blob_note :: "bytes \<Rightarrow> Document" where
  "blob_note b =
     \<lparr>name = lit ''note.txt'', path = None, buffer = Some b, s3Key = None,
      id = 0x507f1f77bcf86cd799439011, createdAt = 1700000000000, updatedAt = 1700000000000\<rparr>"

definition object_note :: Document where
  "object_note =
     \<lparr>name = lit ''note.txt'', path = None, buffer = None,
      s3Key = Some (lit ''documents/1700000000000-4fzyo82mvyr-note.txt''),
      id = 0x507f1f77bcf86cd799439011, createdAt = 1700000000000, updatedAt = 1700000000000\<rparr>"

text \<open>
  Three records, one per kind of locator, created at times 1000, 2000 and 3000. The file
  of the first is no longer on disk; the object of the second is in the bucket.
\<close>

definition note1 :: Document where
  "note1 =
     \<lparr>name = lit ''a.txt'', path = Some (lit ''/tmp/a.txt''), buffer = None, s3Key = None,
      id = 0x507f1f77bcf86cd799439001, createdAt = 1000, updatedAt = 1000\<rparr>"

definition note2 :: Document where
  "note2 =
     \<lparr>name = lit ''b.txt'', path = None, buffer = None, s3Key = Some (lit ''documents/2-x-b.txt''),
      id = 0x507f1f77bcf86cd799439002, createdAt = 2000, updatedAt = 2000\<rparr>"

definition note3 :: Document where
  "note3 =
     \<lparr>name = lit ''c.txt'', path = None, buffer = Some hello, s3Key = None,
      id = 0x507f1f77bcf86cd799439003, createdAt = 3000, updatedAt = 3000\<rparr>"

definition stocked_world :: "thrown option list \<Rightarrow> world" where
  "stocked_world fs =
     \<lparr>files = Map.empty, bucket = [lit ''documents/2-x-b.txt'' \<mapsto> hello],
      repo = [note1, note2, note3], clock = 4000,
      oids = (\<lambda>n. 0x507f1f77bcf86cd799439001 + of_nat n), issued = 3,
      randoms = (\<lambda>n. lit ''4fzyo82mvyr''), drawn = 1, faults = fs, trace = []\<rparr>"

section \<open>Sanitized names\<close>

lemma length_sanitize: "length (sanitize n) = length n"
  by (simp add: sanitize_def)

lemma sanitize_nth:
  "i < length n \<Longrightarrow> sanitize n ! i = (if in_class (n ! i) then n ! i else underscore)"
  by (simp add: sanitize_def)

lemma sanitize_units: "c \<in> set (sanitize n) \<Longrightarrow> in_class c \<or> c = underscore"
  by (auto simp: sanitize_def)


section \<open>Key generation\<close>

lemma length_lit: "length (lit s) = length s"
  by (simp add: lit_def)

text \<open>
  C9. For every original name, clock value and random string, the key generated by
  \<^verbatim>\<open>generateS3Key\<close> is the prefix \<^verbatim>\<open>documents/\<close>, the time in decimal, a hyphen, the
  random string, a hyphen, and the sanitized name. It begins with \<^verbatim>\<open>documents/\<close> and ends
  with the sanitized name, which has the length of the original name, keeps every code
  unit of the class \<^verbatim>\<open>[a-zA-Z0-9.-]\<close> in place and has an underscore where the original
  has any other code unit. So the part of the key that comes from the name holds only code
  units of the class and underscores.
\<close>

theorem generateS3Key_shape:
  "generateS3Key timestamp randomString originalName =
     lit ''documents/'' @ decimal timestamp @ lit ''-'' @ randomString @ lit ''-''
       @ sanitize originalName
   \<and> take 10 (generateS3Key timestamp randomString originalName) = lit ''documents/''
   \<and> drop (length (generateS3Key timestamp randomString originalName) - length originalName)
         (generateS3Key timestamp randomString originalName) = sanitize originalName
   \<and> length (sanitize originalName) = length originalName
   \<and> (\<forall>i < length originalName.
         sanitize originalName ! i
           = (if in_class (originalName ! i) then originalName ! i else underscore))
   \<and> (\<forall>c \<in> set (sanitize originalName). in_class c \<or> c = underscore)"
proof -
  let ?key = "generateS3Key timestamp randomString originalName"
  let ?mid = "decimal timestamp @ lit ''-'' @ randomString @ lit ''-''"
  have key: "?key = lit ''documents/'' @ ?mid @ sanitize originalName"
    by (simp add: generateS3Key_def)
  have prefix: "take 10 ?key = lit ''documents/''"
    by (simp add: key length_lit)
  have "length ?key - length originalName = length (lit ''documents/'' @ ?mid)"
    by (simp add: key length_sanitize)
  then have suffix: "drop (length ?key - length originalName) ?key = sanitize originalName"
    by (simp add: key)
  from key prefix suffix show ?thesis
    by (auto simp: length_sanitize sanitize_nth dest: sanitize_units)
qed

theorem generateS3Key_shape_witness:
  "generateS3Key 1234567890 (lit ''4fzyo82mvyr'') (lit ''a b.txt'')
     = lit ''documents/1234567890-4fzyo82mvyr-a_b.txt''
   \<and> sanitize (lit ''a b.txt'') = lit ''a_b.txt''
   \<and> 0x20 \<notin> set (sanitize (lit ''a b.txt''))"
  using generateS3Key_shape [of 1234567890 "lit ''4fzyo82mvyr''" "lit ''a b.txt''"]
  by (simp add: decimal.simps lit_def digit_unit_def sanitize_def in_class_def underscore_def)


section \<open>The primitives and the monad, step by step\<close>

lemma called_simps [simp]:
  "files (called ev w) = files w" "bucket (called ev w) = bucket w"
  "repo (called ev w) = repo w" "clock (called ev w) = clock w"
  "oids (called ev w) = oids w" "issued (called ev w) = issued w"
  "randoms (called ev w) = randoms w" "drawn (called ev w) = drawn w"
  "faults (called ev w) = tl (faults w)" "trace (called ev w) = trace w @ [ev]"
  by (simp_all add: called_def)

lemma io_simps [simp]:
  "io_bind (io_return x) f = f x"
  "io_bind (io_throw e) f = io_throw e"
  "io_catch (io_return x) h = io_return x"
  "io_catch (io_throw e) h = h e"
  by (auto simp: io_bind_def io_return_def io_throw_def io_catch_def)

lemma io_bind_apply:
  "io_bind m f w = (case m w of (Inl e, w') \<Rightarrow> (Inl e, w') | (Inr x, w') \<Rightarrow> f x w')"
  by (simp add: io_bind_def)

lemma io_catch_apply:
  "io_catch m h w = (case m w of (Inl e, w') \<Rightarrow> h e w' | (Inr x, w') \<Rightarrow> (Inr x, w'))"
  by (simp add: io_catch_def)

lemma external_apply:
  "external ev w = (case next_fault w of Some e \<Rightarrow> (Inl e, called ev w) | None \<Rightarrow> (Inr (), called ev w))"
  by (simp add: external_def)

lemma new_ObjectId_apply:
  "new_ObjectId s w =
     (case ObjectId_of_string s of
        None \<Rightarrow> (Inl (Error (lit ''input must be a 24 character hex string'')), w)
      | Some x \<Rightarrow> (Inr x, w))"
  by (simp add: new_ObjectId_def io_throw_def io_return_def split: option.splits)

lemma repo_findOneBy_apply:
  "repo_findOneBy oid w =
     (case next_fault w of
        Some e \<Rightarrow> (Inl e, called (RepoFindOneBy oid) w)
      | None \<Rightarrow> (Inr (find (\<lambda>d. id d = oid) (repo w)), called (RepoFindOneBy oid) w))"
  by (simp add: repo_findOneBy_def io_bind_apply external_def split: option.splits)

lemma getDocumentById_apply:
  "getDocumentById i w =
     (case ObjectId_of_string i of
        None \<Rightarrow> (Inr None, w)
      | Some oid \<Rightarrow>
          (case next_fault w of
             Some e \<Rightarrow> (Inr None, called (RepoFindOneBy oid) w)
           | None \<Rightarrow> (Inr (find (\<lambda>d. id d = oid) (repo w)), called (RepoFindOneBy oid) w)))"
  by (simp add: getDocumentById_def io_catch_apply io_bind_apply new_ObjectId_apply
      repo_findOneBy_apply io_return_def split: option.splits)

lemma fs_readFile_apply:
  "fs_readFile p w =
     (case next_fault w of
        Some e \<Rightarrow> (Inl e, called (ReadFile p) w)
      | None \<Rightarrow>
          (case files w p of
             None \<Rightarrow> (Inl (ENOENT ''open'' p), called (ReadFile p) w)
           | Some content \<Rightarrow> (Inr content, called (ReadFile p) w)))"
  by (simp add: fs_readFile_def io_bind_apply external_def split: option.splits)

lemma fs_unlink_apply:
  "fs_unlink p w =
     (case next_fault w of
        Some e \<Rightarrow> (Inl e, called (Unlink p) w)
      | None \<Rightarrow>
          (case files w p of
             None \<Rightarrow> (Inl (ENOENT ''unlink'' p), called (Unlink p) w)
           | Some content \<Rightarrow> (Inr (), (called (Unlink p) w)\<lparr>files := (files w)(p := None)\<rparr>)))"
  by (simp add: fs_unlink_def io_bind_apply external_def split: option.splits)

lemma uploadFile_apply:
  "uploadFile key body w =
     (case next_fault w of
        Some e \<Rightarrow> (Inl (Error (lit ''Failed to upload file to S3: '' @ message_of e)),
                   called (PutObject key body) w)
      | None \<Rightarrow> (Inr key, (called (PutObject key body) w)\<lparr>bucket := (bucket w)(key \<mapsto> body)\<rparr>))"
  by (simp add: uploadFile_def send_PutObject_def io_catch_apply io_bind_apply external_def
      io_return_def io_throw_def split: option.splits)

lemma downloadFile_apply:
  "downloadFile key w =
     (case next_fault w of
        Some e \<Rightarrow> (Inl (Error (lit ''Failed to download file from S3: '' @ message_of e)),
                   called (GetObject key) w)
      | None \<Rightarrow>
          (case bucket w key of
             None \<Rightarrow> (Inl (Error (lit ''Failed to download file from S3: ''
                          @ lit ''The specified key does not exist.'')), called (GetObject key) w)
           | Some body \<Rightarrow> (Inr (toString_utf8 body), called (GetObject key) w)))"
  by (simp add: downloadFile_def send_GetObject_def io_catch_apply io_bind_apply external_def
      io_return_def io_throw_def message_of_def split: option.splits)

lemma deleteFile_apply:
  "deleteFile key w =
     (case next_fault w of
        Some e \<Rightarrow> (Inl (Error (lit ''Failed to delete file from S3: '' @ message_of e)),
                   called (DeleteObject key) w)
      | None \<Rightarrow> (Inr (), (called (DeleteObject key) w)\<lparr>bucket := (bucket w)(key := None)\<rparr>))"
  by (simp add: deleteFile_def send_DeleteObject_def io_catch_apply io_bind_apply external_def
      io_return_def io_throw_def split: option.splits)

lemma repo_delete_apply:
  "repo_delete oid w =
     (case next_fault w of
        Some e \<Rightarrow> (Inl e, called (RepoDelete oid) w)
      | None \<Rightarrow> (Inr (), (called (RepoDelete oid) w)\<lparr>repo := filter (\<lambda>d. id d \<noteq> oid) (repo w)\<rparr>))"
  by (simp add: repo_delete_def io_bind_apply external_def split: option.splits)

lemma repo_find_apply:
  "repo_find field dir w =
     (case next_fault w of
        Some e \<Rightarrow> (Inl e, called RepoFind w)
      | None \<Rightarrow> (Inr (order_by field dir (repo w)), called RepoFind w))"
  by (simp add: repo_find_def io_bind_apply external_def split: option.splits)

lemma repo_save_apply:
  "repo_save document w =
     (case next_fault w of
        Some e \<Rightarrow> (Inl e, called RepoSave w)
      | None \<Rightarrow>
          if oids w (issued w) \<in> id ` set (repo w)
          then (Inl (Error (lit ''E11000 duplicate key error'')),
                (called RepoSave w)\<lparr>issued := Suc (issued w)\<rparr>)
          else (Inr (saved_as document w),
                (called RepoSave w)\<lparr>issued := Suc (issued w),
                   repo := repo w @ [saved_as document w]\<rparr>))"
  by (simp add: repo_save_def io_bind_apply external_def saved_as_def Let_def split: option.splits)

section \<open>Ids, lookups and successful creation\<close>

lemma length_hex_digits: "length (hex_digits k n) = k"
  by (induction k arbitrary: n) auto

lemma unat_unit: "m < 65536 \<Longrightarrow> unat (word_of_nat m :: 16 word) = m"
  by (rule of_nat_inverse [OF refl]) simp

lemma unat_hex_unit: "d < 16 \<Longrightarrow> unat (hex_unit d) = (if d < 10 then 48 + d else 87 + d)"
  by (simp add: hex_unit_def unat_unit del: of_nat_add)

lemma hex_value_hex_unit: "d < 16 \<Longrightarrow> hex_value (hex_unit d) = Some d"
  by (simp add: hex_value_def word_le_nat_alt unat_hex_unit)

lemma hex_number_snoc:
  "hex_number acc (cs @ [c]) =
     (case hex_number acc cs of
        None \<Rightarrow> None
      | Some a \<Rightarrow> (case hex_value c of None \<Rightarrow> None | Some v \<Rightarrow> Some (16 * a + v)))"
  by (induction cs arbitrary: acc) (auto split: option.splits)

lemma hex_number_hex_digits: "hex_number 0 (hex_digits k n) = Some (n mod 16 ^ k)"
proof (induction k arbitrary: n)
  case 0
  show ?case by simp
next
  case (Suc k)
  have "n mod (16 * 16 ^ k) = 16 * (n div 16 mod 16 ^ k) + n mod 16"
    by (rule mod_mult2_eq)
  with Suc show ?case
    by (simp add: hex_number_snoc hex_value_hex_unit)
qed

lemma ObjectId_roundtrip: "ObjectId_of_string (toHexString x) = Some x"
proof -
  have "unat x < 2 ^ 96"
    using unsigned_less [of x] by simp
  then have "unat x mod 16 ^ 24 = unat x"
    by simp
  then show ?thesis
    by (simp add: ObjectId_of_string_def toHexString_def length_hex_digits hex_number_hex_digits)
qed

lemma find_absent: "oid \<notin> id ` set ds \<Longrightarrow> find (\<lambda>d. id d = oid) ds = None"
  by (auto simp: find_None_iff)

lemma find_fresh: "id d \<notin> id ` set ds \<Longrightarrow> find (\<lambda>x. id x = id d) (ds @ [d]) = Some d"
  by (induction ds) auto

lemma no_faults_Suc:
  "no_faults (Suc k) w \<longleftrightarrow> next_fault w = None \<and> no_faults k (called ev w)"
  by (cases "faults w") (auto simp: no_faults_def next_fault_def)

lemma no_faults_next: "no_faults (Suc k) w \<Longrightarrow> next_fault w = None"
  by (cases "faults w") (auto simp: no_faults_def next_fault_def)

lemma no_faults_called: "no_faults (Suc k) w \<Longrightarrow> no_faults k (called ev w)"
  by (cases "faults w") (auto simp: no_faults_def)

lemma active_backend_iff:
  "active_backend cfg = ObjectStorage \<longleftrightarrow> isS3Storage cfg"
  "active_backend cfg = EmbeddedBlob \<longleftrightarrow> \<not> isS3Storage cfg \<and> isMongoDBStorage cfg"
  "active_backend cfg = Filesystem \<longleftrightarrow> \<not> isS3Storage cfg \<and> \<not> isMongoDBStorage cfg"
  by (simp_all add: active_backend_def)

lemma generateS3Key_truthy: "truthy (Some (generateS3Key t r n))"
  by (simp add: truthy_def generateS3Key_def lit_def)

lemma createDocument_success:
  assumes "createDocument cfg n p fb w = (Inr d, w1)"
  shows "repo w1 = repo w @ [d] \<and> id d \<notin> id ` set (repo w) \<and> files w1 = files w
    \<and> (case active_backend cfg of
         ObjectStorage \<Rightarrow>
           truthy (s3Key d) \<and> bucket w1 (the (s3Key d)) = supplied cfg p fb w
           \<and> supplied cfg p fb w \<noteq> None \<and> path d = None \<and> buffer d = None
       | EmbeddedBlob \<Rightarrow>
           buffer d = supplied cfg p fb w \<and> buffer d \<noteq> None \<and> path d = None \<and> s3Key d = None
       | Filesystem \<Rightarrow> path d = p \<and> truthy p \<and> buffer d = None \<and> s3Key d = None)"
  using assms
  by (auto simp: createDocument_def active_backend_def supplied_def io_bind_apply
      io_return_def io_throw_def fs_readFile_apply uploadFile_apply repo_save_apply
      s3Service_generateS3Key_def saved_as_def new_Document_def generateS3Key_truthy
      truthy_def [of None] Let_def
      split: option.splits if_splits)

lemma lookup_after_create:
  assumes "createDocument cfg n p fb w = (Inr d, w1)" and "next_fault w1 = None"
  shows "getDocumentById (toHexString (id d)) w1
           = (Inr (Some d), called (RepoFindOneBy (id d)) w1)"
  using createDocument_success [OF assms(1)] assms(2)
  by (simp add: getDocumentById_apply ObjectId_roundtrip find_fresh)


lemma next_fault_frame:
  "next_fault (w\<lparr>bucket := bk\<rparr>) = next_fault w"
  "next_fault (w\<lparr>drawn := k\<rparr>) = next_fault w"
  by (simp_all add: next_fault_def)

lemma called_drawn: "called ev (w\<lparr>drawn := k\<rparr>) = (called ev w)\<lparr>drawn := k\<rparr>"
  by (simp add: called_def)

section \<open>createDocument\<close>

text \<open>
  C4. Every record that a successful \<^verbatim>\<open>createDocument\<close> returns has exactly one of the
  locators \<open>path\<close>, \<open>buffer\<close> and \<open>s3Key\<close> populated, and it is the one of the backend in
  force: \<open>s3Key\<close> under S3, \<open>buffer\<close> under MongoDB, \<open>path\<close> under the file system.
\<close>

theorem createDocument_locator:
  "createDocument cfg n p fb w = (Inr d, w') \<Longrightarrow>
     populated d = 1
     \<and> (case active_backend cfg of
          ObjectStorage \<Rightarrow> truthy (s3Key d)
        | EmbeddedBlob \<Rightarrow> buffer d \<noteq> None
        | Filesystem \<Rightarrow> truthy (path d))"
  by (auto simp: createDocument_def active_backend_def populated_def io_bind_apply
      io_return_def io_throw_def fs_readFile_apply uploadFile_apply repo_save_apply
      s3Service_generateS3Key_def saved_as_def new_Document_def generateS3Key_truthy
      truthy_def [of None] Let_def
      split: option.splits if_splits)

text \<open>
  C6. Under the file system backend, \<^verbatim>\<open>createDocument\<close> without a path (a buffer alone,
  say) rejects with the message that names the path, and leaves the world as it was: no
  record is stored and no external call is made. With a path, its only external call is
  the save, the files are untouched, and a record it returns has the path set and is in
  the collection.
\<close>

theorem createDocument_filesystem:
  "active_backend cfg = Filesystem \<Longrightarrow>
     (\<not> truthy p \<longrightarrow>
        createDocument cfg n p fb w
          = (Inl (Error (lit ''Path must be provided for filesystem storage'')), w))
     \<and> (truthy p \<longrightarrow>
        (\<exists>r w'. createDocument cfg n p fb w = (r, w')
           \<and> trace w' = trace w @ [RepoSave] \<and> files w' = files w
           \<and> (\<forall>d. r = Inr d \<longrightarrow> path d = p \<and> d \<in> set (repo w'))))"
  by (auto simp: active_backend_iff createDocument_def io_throw_def repo_save_apply
      saved_as_def new_Document_def split: option.splits)

text \<open>
  C10. Under S3 or MongoDB, \<^verbatim>\<open>createDocument\<close> given both a path and a buffer behaves
  exactly as if given the buffer alone: it reads no file, and what it persists (the object
  uploaded under the record's key, or the buffer stored in the record) is the buffer.
  It does persist it: when the id the driver generates is not yet stored and the external
  calls go through (the save under MongoDB; the upload and the save under S3), it resolves
  to a record that is in the collection, and under MongoDB that record holds the buffer,
  under S3 it carries the generated key and the bucket holds the buffer under that key.
\<close>

theorem createDocument_buffer_precedence:
  "active_backend cfg \<noteq> Filesystem \<Longrightarrow>
   createDocument cfg n (Some p) (Some b) w = (r, w') \<Longrightarrow>
     createDocument cfg n None (Some b) w = (r, w')
     \<and> filter is_read (trace w') = filter is_read (trace w)
     \<and> (\<forall>d. r = Inr d \<longrightarrow>
          (case active_backend cfg of
             ObjectStorage \<Rightarrow> s3Key d \<noteq> None \<and> bucket w' (the (s3Key d)) = Some b
           | _ \<Rightarrow> buffer d = Some b \<and> d \<in> set (repo w')))
     \<and> (active_backend cfg = EmbeddedBlob \<and> next_fault w = None
          \<and> oids w (issued w) \<notin> id ` set (repo w) \<longrightarrow>
          (\<exists>d. r = Inr d \<and> buffer d = Some b \<and> d \<in> set (repo w')))
     \<and> (active_backend cfg = ObjectStorage \<and> no_faults 2 w
          \<and> oids w (issued w) \<notin> id ` set (repo w) \<longrightarrow>
          (\<exists>d. r = Inr d
             \<and> s3Key d = Some (generateS3Key (clock w) (randoms w (drawn w)) n)
             \<and> bucket w' (generateS3Key (clock w) (randoms w (drawn w)) n) = Some b
             \<and> d \<in> set (repo w')))"
proof -
  assume backend: "active_backend cfg \<noteq> Filesystem"
    and run: "createDocument cfg n (Some p) (Some b) w = (r, w')"
  let ?key = "generateS3Key (clock w) (randoms w (drawn w)) n"
  have safety: "createDocument cfg n None (Some b) w = (r, w')
     \<and> filter is_read (trace w') = filter is_read (trace w)
     \<and> (\<forall>d. r = Inr d \<longrightarrow>
          (case active_backend cfg of
             ObjectStorage \<Rightarrow> s3Key d \<noteq> None \<and> bucket w' (the (s3Key d)) = Some b
           | _ \<Rightarrow> buffer d = Some b \<and> d \<in> set (repo w')))"
    using backend run
    by (auto simp: createDocument_def active_backend_def io_bind_apply
        io_return_def io_throw_def uploadFile_apply repo_save_apply
        s3Service_generateS3Key_def saved_as_def new_Document_def is_read_def Let_def
        split: option.splits if_splits)
  have blob: "\<exists>d. r = Inr d \<and> buffer d = Some b \<and> d \<in> set (repo w')"
    if "active_backend cfg = EmbeddedBlob" "next_fault w = None"
      "oids w (issued w) \<notin> id ` set (repo w)"
    using that run
    by (auto simp: createDocument_def active_backend_iff io_bind_apply io_return_def
        repo_save_apply saved_as_def new_Document_def Let_def)
  have object: "\<exists>d. r = Inr d \<and> s3Key d = Some ?key \<and> bucket w' ?key = Some b
      \<and> d \<in> set (repo w')"
    if "active_backend cfg = ObjectStorage" "no_faults 2 w"
      "oids w (issued w) \<notin> id ` set (repo w)"
  proof -
    have two: "2 = Suc (Suc 0)" by simp
    from that(2) have ok1: "next_fault w = None"
      and ok2: "next_fault (called (PutObject ?key b) w) = None"
      unfolding two by (auto dest: no_faults_next no_faults_called)
    from that(1,3) ok1 ok2 run show ?thesis
      by (auto simp: createDocument_def active_backend_iff io_bind_apply io_return_def
          uploadFile_apply repo_save_apply s3Service_generateS3Key_def saved_as_def
          new_Document_def Let_def next_fault_frame called_drawn)
  qed
  from safety blob object show ?thesis
    by blast
qed

section \<open>getDocumentContent\<close>

text \<open>
  C1. Under each backend, when \<^verbatim>\<open>createDocument\<close> succeeds on content supplied as the
  backend requires it (a buffer \<open>B\<close>, or a path whose file holds \<open>B\<close>), then
  \<^verbatim>\<open>getDocumentContent\<close> on the id of the returned record, under the same backend and
  with its two external calls going through, succeeds with that record and with \<open>B\<close>
  decoded as UTF-8.
\<close>

theorem create_then_getDocumentContent:
  assumes created: "createDocument cfg n p fb w = (Inr d, w1)"
    and content: "supplied cfg p fb w = Some B"
    and reliable: "no_faults 2 w1"
  shows "fst (getDocumentContent cfg (toHexString (id d)) w1) = Inr (d, toString_utf8 B)"
proof -
  let ?w2 = "called (RepoFindOneBy (id d)) w1"
  have two: "2 = Suc (Suc 0)" by simp
  from reliable have ok1: "next_fault w1 = None" and ok2: "next_fault ?w2 = None"
    unfolding two by (auto dest: no_faults_next no_faults_called)
  have found: "getDocumentById (toHexString (id d)) w1 = (Inr (Some d), ?w2)"
    by (rule lookup_after_create [OF created ok1])
  note shape = createDocument_success [OF created]
  show ?thesis
  proof (cases "active_backend cfg")
    case ObjectStorage
    with shape content have "truthy (s3Key d)" "bucket ?w2 (the (s3Key d)) = Some B"
      by simp_all
    with ObjectStorage ok2 show ?thesis
      by (simp add: getDocumentContent_def io_bind_apply io_catch_apply found
          active_backend_iff downloadFile_apply io_return_def)
  next
    case EmbeddedBlob
    with shape content have "buffer d = Some B"
      by simp
    with EmbeddedBlob show ?thesis
      by (simp add: getDocumentContent_def io_bind_apply io_catch_apply found
          active_backend_iff io_return_def)
  next
    case Filesystem
    with shape content have "truthy (path d)" "files ?w2 (the (path d)) = Some B"
      by (simp_all add: supplied_def)
    with Filesystem ok2 show ?thesis
      by (simp add: getDocumentContent_def io_bind_apply io_catch_apply found
          active_backend_iff fs_readFile_utf8_def fs_readFile_apply io_return_def)
  qed
qed

text \<open>
  C5, as amended. A record created under S3 or MongoDB cannot be read once another backend
  is in force: \<^verbatim>\<open>getDocumentContent\<close> rejects with the message of the missing storage
  location. A record created under the file system stays readable under every backend,
  through the path branch, which no backend guards.
\<close>

theorem getDocumentContent_after_backend_switch:
  assumes created: "createDocument cfg n p fb w = (Inr d, w1)"
    and switched: "active_backend cfg' \<noteq> active_backend cfg"
    and reliable: "no_faults 2 w1"
  shows "(active_backend cfg \<noteq> Filesystem \<longrightarrow>
            fst (getDocumentContent cfg' (toHexString (id d)) w1) = Inl no_valid_location)
       \<and> (active_backend cfg = Filesystem \<longrightarrow>
            (\<forall>B. files w1 (the (path d)) = Some B \<longrightarrow>
               fst (getDocumentContent cfg' (toHexString (id d)) w1)
                 = Inr (d, toString_utf8 B)))"
proof -
  let ?w2 = "called (RepoFindOneBy (id d)) w1"
  let ?read = "fst (getDocumentContent cfg' (toHexString (id d)) w1)"
  have two: "2 = Suc (Suc 0)" by simp
  from reliable have ok1: "next_fault w1 = None" and ok2: "next_fault ?w2 = None"
    unfolding two by (auto dest: no_faults_next no_faults_called)
  have found: "getDocumentById (toHexString (id d)) w1 = (Inr (Some d), ?w2)"
    by (rule lookup_after_create [OF created ok1])
  note shape = createDocument_success [OF created]
  have object: "?read = Inl no_valid_location" if "active_backend cfg = ObjectStorage"
  proof -
    from that shape switched
    have "path d = None" "buffer d = None" "\<not> isS3Storage cfg'"
      by (simp_all flip: active_backend_iff)
    then show ?thesis
      by (simp add: getDocumentContent_def io_bind_apply io_catch_apply found
          io_throw_def no_valid_location_def message_of_def truthy_def)
  qed
  have blob: "?read = Inl no_valid_location" if "active_backend cfg = EmbeddedBlob"
  proof -
    from that shape switched
    have "path d = None" "s3Key d = None" "\<not> isMongoDBStorage cfg'"
      by (auto simp: active_backend_def isS3Storage_def isMongoDBStorage_def lit_def
          split: if_splits)
    then show ?thesis
      by (simp add: getDocumentContent_def io_bind_apply io_catch_apply found
          io_throw_def no_valid_location_def message_of_def truthy_def)
  qed
  have by_path: "?read = Inr (d, toString_utf8 B)"
    if "active_backend cfg = Filesystem" "files w1 (the (path d)) = Some B" for B
  proof -
    from that shape
    have "truthy (path d)" "buffer d = None" "s3Key d = None" "files ?w2 (the (path d)) = Some B"
      by simp_all
    with ok2 show ?thesis
      by (simp add: getDocumentContent_def io_bind_apply io_catch_apply found
          fs_readFile_utf8_def fs_readFile_apply io_return_def truthy_def [of None])
  qed
  from object blob by_path show ?thesis
    by (cases "active_backend cfg") simp_all
qed

text \<open>
  C7. For every id string that has no record, \<^verbatim>\<open>getDocumentContent\<close> rejects with
  \<^verbatim>\<open>Document not found\<close>. A malformed id string is such a string: it rejects with the
  same error, before any external call.
\<close>

theorem getDocumentContent_not_found:
  "(\<not> record_exists w i \<longrightarrow> fst (getDocumentContent cfg i w) = Inl not_found)
   \<and> (ObjectId_of_string i = None \<longrightarrow> getDocumentContent cfg i w = (Inl not_found, w))"
  by (auto simp: getDocumentContent_def io_bind_apply getDocumentById_apply record_exists_def
      not_found_def io_throw_def find_absent split: option.splits)

section \<open>getAllDocuments\<close>

lemma sorted_desc:
  "sorted (map (\<lambda>d. - int (f d)) ds) \<Longrightarrow> sorted_wrt (\<lambda>a b. f b \<le> f a) ds"
  by (induction ds) auto

text \<open>
  C8. When the store answers, \<^verbatim>\<open>getAllDocuments\<close> resolves to all stored records, each
  as often as it is stored, ordered by creation time with the newest first; on an empty
  collection it resolves to the empty list.
\<close>

theorem getAllDocuments_newest_first:
  "next_fault w = None \<Longrightarrow>
     \<exists>ds. getAllDocuments w = (Inr ds, called RepoFind w)
       \<and> mset ds = mset (repo w)
       \<and> sorted_wrt (\<lambda>a b. createdAt b \<le> createdAt a) ds
       \<and> (repo w = [] \<longrightarrow> ds = [])"
proof -
  assume ok: "next_fault w = None"
  let ?ds = "order_by createdAt DESC (repo w)"
  have "getAllDocuments w = (Inr ?ds, called RepoFind w)"
    by (simp add: getAllDocuments_def repo_find_apply ok)
  moreover have "mset ?ds = mset (repo w)"
    by (simp add: order_by_def)
  moreover have "sorted_wrt (\<lambda>a b. createdAt b \<le> createdAt a) ?ds"
    by (rule sorted_desc) (simp add: order_by_def)
  moreover have "repo w = [] \<longrightarrow> ?ds = []"
    by (simp add: order_by_def)
  ultimately show ?thesis by blast
qed

section \<open>deleteDocument\<close>

lemma getDocumentById_found:
  "getDocumentById i w = (Inr (Some d), w1) \<Longrightarrow>
     d \<in> set (repo w) \<and> repo w1 = repo w \<and> bucket w1 = bucket w \<and> files w1 = files w"
  by (auto simp: getDocumentById_apply find_Some_iff in_set_conv_nth split: option.splits)

text \<open>
  C2. Under S3, for a record whose \<open>s3Key\<close> is populated: when the remote delete rejects,
  \<^verbatim>\<open>deleteDocument\<close> rejects with the deletion error that carries the cause, makes no
  further external call, and the collection and the bucket are as before, the record still
  stored. When the remote delete
  and the delete of the record both go through, it resolves, the object is gone from the
  bucket and the collection holds no record of that id.
\<close>

theorem deleteDocument_object_storage:
  assumes "active_backend cfg = ObjectStorage"
    and "getDocumentById i w = (Inr (Some d), w1)"
    and "truthy (s3Key d)"
  shows "(\<forall>e. next_fault w1 = Some e \<longrightarrow>
            (\<exists>w'. deleteDocument cfg i w
                     = (Inl (deletion_failed
                          (lit ''Failed to delete file from S3: '' @ message_of e)), w')
               \<and> repo w' = repo w \<and> d \<in> set (repo w') \<and> bucket w' = bucket w
               \<and> trace w' = trace w1 @ [DeleteObject (the (s3Key d))]))
       \<and> (no_faults 2 w1 \<longrightarrow>
            (\<exists>w'. deleteDocument cfg i w = (Inr (), w')
               \<and> bucket w' (the (s3Key d)) = None \<and> id d \<notin> id ` set (repo w')))"
proof -
  note found = getDocumentById_found [OF assms(2)]
  have s3: "isS3Storage cfg"
    using assms(1) by (simp add: active_backend_iff)
  have two: "2 = Suc (Suc 0)" by simp
  show ?thesis
  proof (intro conjI allI impI)
    fix e assume "next_fault w1 = Some e"
    with found s3 assms(3) show "\<exists>w'. deleteDocument cfg i w
        = (Inl (deletion_failed (lit ''Failed to delete file from S3: '' @ message_of e)), w')
        \<and> repo w' = repo w \<and> d \<in> set (repo w') \<and> bucket w' = bucket w
        \<and> trace w' = trace w1 @ [DeleteObject (the (s3Key d))]"
      by (simp add: deleteDocument_def io_bind_apply io_catch_apply assms(2) deleteFile_apply
          io_throw_def deletion_failed_def message_of_def)
  next
    let ?w2 = "(called (DeleteObject (the (s3Key d))) w1)
                 \<lparr>bucket := (bucket w1)(the (s3Key d) := None)\<rparr>"
    assume "no_faults 2 w1"
    then have "next_fault w1 = None" "next_fault (called (DeleteObject (the (s3Key d))) w1) = None"
      unfolding two by (auto dest: no_faults_next no_faults_called)
    then have "next_fault w1 = None" "next_fault ?w2 = None"
      by (simp_all add: next_fault_def)
    with s3 assms(3) show "\<exists>w'. deleteDocument cfg i w = (Inr (), w')
        \<and> bucket w' (the (s3Key d)) = None \<and> id d \<notin> id ` set (repo w')"
      by (auto simp add: deleteDocument_def io_bind_apply io_catch_apply assms(2) deleteFile_apply
          repo_delete_apply)
  qed
qed

text \<open>
  C3. Under the file system backend, for a record whose \<open>path\<close> is populated: when
  \<^verbatim>\<open>fs.unlink\<close> rejects, for a missing file or any other reason,
  \<^verbatim>\<open>deleteDocument\<close> goes on exactly as the delete of the record alone would, so the
  failure of the unlink never reaches the caller; when that delete goes through,
  \<^verbatim>\<open>deleteDocument\<close> resolves and the collection holds no record of that id.
\<close>

theorem deleteDocument_filesystem_best_effort:
  assumes "active_backend cfg = Filesystem"
    and "getDocumentById i w = (Inr (Some d), w1)"
    and "truthy (path d)"
    and "fs_unlink (the (path d)) w1 = (Inl e, w2)"
  shows "deleteDocument cfg i w
           = io_catch (repo_delete (id d))
               (\<lambda>error. io_throw (deletion_failed (message_of error))) w2
       \<and> (next_fault w2 = None \<longrightarrow>
            (\<exists>w'. deleteDocument cfg i w = (Inr (), w') \<and> id d \<notin> id ` set (repo w')))"
proof -
  have fs: "\<not> isS3Storage cfg" "\<not> isMongoDBStorage cfg"
    using assms(1) by (simp_all add: active_backend_iff)
  have run: "deleteDocument cfg i w
           = io_catch (repo_delete (id d))
               (\<lambda>error. io_throw (deletion_failed (message_of error))) w2"
    using fs assms(3)
    by (simp add: deleteDocument_def io_bind_apply io_catch_apply assms(2) assms(4)
        io_return_def deletion_failed_def)
  show ?thesis
    unfolding run by (auto simp: io_catch_apply repo_delete_apply)
qed


section \<open>The services on the example worlds\<close>

lemmas service_run =
  createDocument_def getDocumentContent_def deleteDocument_def getAllDocuments_def
  getDocumentById_apply io_bind_apply io_catch_apply io_return_def io_throw_def
  repo_save_apply repo_delete_apply repo_find_apply fs_readFile_apply fs_readFile_utf8_def
  fs_unlink_apply uploadFile_apply downloadFile_apply deleteFile_apply
  s3Service_generateS3Key_def saved_as_def new_Document_def Let_def next_fault_def called_def

lemmas config_run =
  active_backend_def isS3Storage_def isMongoDBStorage_def truthy_def lit_def

lemmas key_run =
  generateS3Key_def decimal.simps digit_unit_def sanitize_def in_class_def underscore_def

lemma toString_hello: "toString_utf8 hello = lit ''hello''"
  by (simp add: toString_utf8_def hello_def utf16_units_def lit_def)

lemma create_filed:
  "createDocument (lit ''filesystem'') (lit ''note.txt'') (Some (lit ''/tmp/note.txt'')) None
     (fresh_world [])
   = (Inr filed_note,
      snd (createDocument (lit ''filesystem'') (lit ''note.txt'') (Some (lit ''/tmp/note.txt''))
        None (fresh_world [])))"
  by (simp add: prod_eq_iff service_run config_run fresh_world_def filed_note_def)

lemma create_blob:
  "createDocument (lit ''mongodb'') (lit ''note.txt'') (Some (lit ''/tmp/note.txt'')) (Some [0x68, 0x69])
     (fresh_world [])
   = (Inr (blob_note [0x68, 0x69]),
      snd (createDocument (lit ''mongodb'') (lit ''note.txt'') (Some (lit ''/tmp/note.txt''))
        (Some [0x68, 0x69]) (fresh_world [])))"
  by (simp add: prod_eq_iff service_run config_run fresh_world_def blob_note_def)

lemma create_object:
  "createDocument (lit ''s3'') (lit ''note.txt'') (Some (lit ''/tmp/note.txt'')) (Some [0x68, 0x69])
     (fresh_world [])
   = (Inr object_note,
      snd (createDocument (lit ''s3'') (lit ''note.txt'') (Some (lit ''/tmp/note.txt''))
        (Some [0x68, 0x69]) (fresh_world [])))"
  by (simp add: prod_eq_iff service_run config_run key_run fresh_world_def object_note_def)


lemma created_filed:
  "fst (createDocument (lit ''filesystem'') (lit ''note.txt'') (Some (lit ''/tmp/note.txt'')) None
     (fresh_world [])) = Inr filed_note"
  using create_filed by (simp add: prod_eq_iff)

lemma created_blob:
  "fst (createDocument (lit ''mongodb'') (lit ''note.txt'') (Some (lit ''/tmp/note.txt''))
     (Some [0x68, 0x69]) (fresh_world [])) = Inr (blob_note [0x68, 0x69])"
  using create_blob by (simp add: prod_eq_iff)

lemma created_object:
  "fst (createDocument (lit ''s3'') (lit ''note.txt'') (Some (lit ''/tmp/note.txt''))
     (Some [0x68, 0x69]) (fresh_world [])) = Inr object_note"
  using create_object by (simp add: prod_eq_iff)

theorem createDocument_locator_witness:
  "fst (createDocument (lit ''filesystem'') (lit ''note.txt'') (Some (lit ''/tmp/note.txt'')) None
      (fresh_world [])) = Inr filed_note
   \<and> populated filed_note = 1 \<and> truthy (path filed_note)
   \<and> fst (createDocument (lit ''mongodb'') (lit ''note.txt'') (Some (lit ''/tmp/note.txt''))
      (Some [0x68, 0x69]) (fresh_world [])) = Inr (blob_note [0x68, 0x69])
   \<and> populated (blob_note [0x68, 0x69]) = 1 \<and> buffer (blob_note [0x68, 0x69]) = Some [0x68, 0x69]
   \<and> fst (createDocument (lit ''s3'') (lit ''note.txt'') (Some (lit ''/tmp/note.txt''))
      (Some [0x68, 0x69]) (fresh_world [])) = Inr object_note
   \<and> populated object_note = 1 \<and> truthy (s3Key object_note)"
  using createDocument_locator [OF create_filed] createDocument_locator [OF create_blob]
    createDocument_locator [OF create_object] created_filed created_blob created_object
  by (simp add: config_run blob_note_def)

theorem createDocument_filesystem_witness:
  "active_backend (lit ''filesystem'') = Filesystem
   \<and> createDocument (lit ''filesystem'') (lit ''note.txt'') None (Some hello) (fresh_world [])
       = (Inl (Error (lit ''Path must be provided for filesystem storage'')), fresh_world [])
   \<and> fst (createDocument (lit ''filesystem'') (lit ''note.txt'') (Some (lit ''/tmp/note.txt''))
        None (fresh_world [])) = Inr filed_note
   \<and> trace (snd (createDocument (lit ''filesystem'') (lit ''note.txt'')
        (Some (lit ''/tmp/note.txt'')) None (fresh_world []))) = [RepoSave]"
proof -
  have fs: "active_backend (lit ''filesystem'') = Filesystem"
    by (simp add: config_run)
  have absent: "\<not> truthy None" and present: "truthy (Some (lit ''/tmp/note.txt''))"
    by (simp_all add: config_run)
  from createDocument_filesystem [OF fs, of None "lit ''note.txt''" "Some hello" "fresh_world []"]
    createDocument_filesystem [OF fs, of "Some (lit ''/tmp/note.txt'')" "lit ''note.txt''" None
      "fresh_world []"]
    absent present fs created_filed
  show ?thesis
    by (auto simp: fresh_world_def)
qed

theorem createDocument_buffer_precedence_witness:
  "fst (createDocument (lit ''s3'') (lit ''note.txt'') (Some (lit ''/tmp/note.txt''))
      (Some [0x68, 0x69]) (fresh_world [])) = Inr object_note
   \<and> fst (createDocument (lit ''s3'') (lit ''note.txt'') None (Some [0x68, 0x69]) (fresh_world []))
       = Inr object_note
   \<and> filter is_read (trace (snd (createDocument (lit ''s3'') (lit ''note.txt'')
        (Some (lit ''/tmp/note.txt'')) (Some [0x68, 0x69]) (fresh_world [])))) = []
   \<and> bucket (snd (createDocument (lit ''s3'') (lit ''note.txt'') (Some (lit ''/tmp/note.txt''))
        (Some [0x68, 0x69]) (fresh_world []))) (lit ''documents/1700000000000-4fzyo82mvyr-note.txt'')
       = Some [0x68, 0x69]
   \<and> fst (createDocument (lit ''mongodb'') (lit ''note.txt'') (Some (lit ''/tmp/note.txt''))
      (Some [0x68, 0x69]) (fresh_world [])) = Inr (blob_note [0x68, 0x69])
   \<and> fst (createDocument (lit ''mongodb'') (lit ''note.txt'') None (Some [0x68, 0x69])
      (fresh_world [])) = Inr (blob_note [0x68, 0x69])
   \<and> buffer (blob_note [0x68, 0x69]) = Some [0x68, 0x69]
   \<and> repo (snd (createDocument (lit ''mongodb'') (lit ''note.txt'') (Some (lit ''/tmp/note.txt''))
        (Some [0x68, 0x69]) (fresh_world []))) = [blob_note [0x68, 0x69]]
   \<and> filter is_read (trace (snd (createDocument (lit ''mongodb'') (lit ''note.txt'')
        (Some (lit ''/tmp/note.txt'')) (Some [0x68, 0x69]) (fresh_world [])))) = []
   \<and> files (fresh_world []) (lit ''/tmp/note.txt'') = Some hello"
proof -
  have s3: "active_backend (lit ''s3'') \<noteq> Filesystem"
    and mongo: "active_backend (lit ''mongodb'') \<noteq> Filesystem"
    and kinds: "active_backend (lit ''s3'') = ObjectStorage"
      "active_backend (lit ''mongodb'') = EmbeddedBlob"
    by (simp_all add: config_run)
  have reliable: "no_faults 2 (fresh_world [])" "next_fault (fresh_world []) = None"
    and fresh: "oids (fresh_world []) (issued (fresh_world [])) \<notin> id ` set (repo (fresh_world []))"
    by (simp_all add: no_faults_def next_fault_def fresh_world_def)
  have stored: "repo (snd (createDocument (lit ''mongodb'') (lit ''note.txt'')
        (Some (lit ''/tmp/note.txt'')) (Some [0x68, 0x69]) (fresh_world []))) = [blob_note [0x68, 0x69]]"
    by (simp add: service_run config_run fresh_world_def blob_note_def)
  from createDocument_buffer_precedence [OF s3 create_object]
    createDocument_buffer_precedence [OF mongo create_blob]
    kinds reliable fresh created_object created_blob stored
  show ?thesis
    by (simp add: config_run fresh_world_def object_note_def blob_note_def)
qed

lemma hex_digits_numeral:
  "hex_digits (numeral k) n = hex_digits (pred_numeral k) (n div 16) @ [hex_unit (n mod 16)]"
proof -
  have e: "(numeral k :: nat) = Suc (pred_numeral k)" by (rule numeral_eq_Suc)
  show ?thesis unfolding e by (rule hex_digits.simps(2))
qed

lemma id_of_note: "toHexString 0x507f1f77bcf86cd799439011 = lit ''507f1f77bcf86cd799439011''"
  by (simp add: toHexString_def lit_def hex_unit_def hex_digits_numeral)

lemma after_create_reliable:
  "no_faults 2 (snd (createDocument (lit ''filesystem'') (lit ''note.txt'')
      (Some (lit ''/tmp/note.txt'')) None (fresh_world [])))"
  "no_faults 2 (snd (createDocument (lit ''s3'') (lit ''note.txt'') (Some (lit ''/tmp/note.txt''))
      (Some [0x68, 0x69]) (fresh_world [])))"
  by (simp_all add: no_faults_def service_run config_run fresh_world_def)

theorem create_then_getDocumentContent_witness:
  "fst (createDocument (lit ''filesystem'') (lit ''note.txt'') (Some (lit ''/tmp/note.txt'')) None
      (fresh_world [])) = Inr filed_note
   \<and> fst (getDocumentContent (lit ''filesystem'') (lit ''507f1f77bcf86cd799439011'')
        (snd (createDocument (lit ''filesystem'') (lit ''note.txt'') (Some (lit ''/tmp/note.txt''))
           None (fresh_world []))))
       = Inr (filed_note, lit ''hello'')
   \<and> fst (createDocument (lit ''s3'') (lit ''note.txt'') (Some (lit ''/tmp/note.txt''))
      (Some [0x68, 0x69]) (fresh_world [])) = Inr object_note
   \<and> fst (getDocumentContent (lit ''s3'') (lit ''507f1f77bcf86cd799439011'')
        (snd (createDocument (lit ''s3'') (lit ''note.txt'') (Some (lit ''/tmp/note.txt''))
           (Some [0x68, 0x69]) (fresh_world []))))
       = Inr (object_note, lit ''hi'')"
proof -
  have by_path: "supplied (lit ''filesystem'') (Some (lit ''/tmp/note.txt'')) None (fresh_world [])
      = Some hello"
    by (simp add: supplied_def config_run fresh_world_def)
  have by_buffer: "supplied (lit ''s3'') (Some (lit ''/tmp/note.txt'')) (Some [0x68, 0x69])
      (fresh_world []) = Some [0x68, 0x69]"
    by (simp add: supplied_def config_run)
  have hi: "toString_utf8 [0x68, 0x69] = lit ''hi''"
    by (simp add: toString_utf8_def utf16_units_def lit_def)
  from create_then_getDocumentContent [OF create_filed by_path after_create_reliable(1)]
    create_then_getDocumentContent [OF create_object by_buffer after_create_reliable(2)]
    created_filed created_object
  show ?thesis
    by (simp add: toString_hello hi filed_note_def object_note_def id_of_note)
qed

theorem backend_switch_counterexample:
  "fst (createDocument (lit ''filesystem'') (lit ''note.txt'') (Some (lit ''/tmp/note.txt'')) None
      (fresh_world [])) = Inr filed_note
   \<and> active_backend (lit ''s3'') \<noteq> active_backend (lit ''filesystem'')
   \<and> fst (getDocumentContent (lit ''s3'') (toHexString (id filed_note))
        (snd (createDocument (lit ''filesystem'') (lit ''note.txt'') (Some (lit ''/tmp/note.txt''))
           None (fresh_world []))))
       = Inr (filed_note, lit ''hello'')
   \<and> Inr (filed_note, lit ''hello'') \<noteq> (Inl no_valid_location :: thrown + Document \<times> js_string)"
  by (simp add: service_run config_run fresh_world_def filed_note_def ObjectId_roundtrip
      toString_hello [unfolded lit_def, simplified])

theorem getDocumentContent_after_backend_switch_witness:
  "fst (createDocument (lit ''s3'') (lit ''note.txt'') (Some (lit ''/tmp/note.txt''))
      (Some [0x68, 0x69]) (fresh_world [])) = Inr object_note
   \<and> fst (getDocumentContent (lit ''filesystem'') (lit ''507f1f77bcf86cd799439011'')
        (snd (createDocument (lit ''s3'') (lit ''note.txt'') (Some (lit ''/tmp/note.txt''))
           (Some [0x68, 0x69]) (fresh_world []))))
       = Inl no_valid_location
   \<and> fst (createDocument (lit ''filesystem'') (lit ''note.txt'') (Some (lit ''/tmp/note.txt'')) None
      (fresh_world [])) = Inr filed_note
   \<and> fst (getDocumentContent (lit ''mongodb'') (lit ''507f1f77bcf86cd799439011'')
        (snd (createDocument (lit ''filesystem'') (lit ''note.txt'') (Some (lit ''/tmp/note.txt''))
           None (fresh_world []))))
       = Inr (filed_note, lit ''hello'')"
proof -
  have switch1: "active_backend (lit ''filesystem'') \<noteq> active_backend (lit ''s3'')"
    and switch2: "active_backend (lit ''mongodb'') \<noteq> active_backend (lit ''filesystem'')"
    and kinds: "active_backend (lit ''s3'') = ObjectStorage"
      "active_backend (lit ''filesystem'') = Filesystem"
    by (simp_all add: config_run)
  have on_disk: "files (snd (createDocument (lit ''filesystem'') (lit ''note.txt'')
      (Some (lit ''/tmp/note.txt'')) None (fresh_world []))) (lit ''/tmp/note.txt'') = Some hello"
    by (simp add: service_run config_run fresh_world_def)
  from getDocumentContent_after_backend_switch [OF create_object switch1 after_create_reliable(2)]
    getDocumentContent_after_backend_switch [OF create_filed switch2 after_create_reliable(1)]
    kinds on_disk created_object created_filed
  show ?thesis
    by (simp add: toString_hello filed_note_def object_note_def id_of_note)
qed

lemmas stock = stocked_world_def note1_def note2_def note3_def

lemma parse_id:
  "ObjectId_of_string (lit ''507f1f77bcf86cd799439001'') = Some 0x507f1f77bcf86cd799439001"
  "ObjectId_of_string (lit ''507f1f77bcf86cd799439002'') = Some 0x507f1f77bcf86cd799439002"
  "ObjectId_of_string (lit ''507f1f77bcf86cd799439099'') = Some 0x507f1f77bcf86cd799439099"
  "ObjectId_of_string (lit ''not-an-id'') = None"
  by (simp_all add: ObjectId_of_string_def lit_def hex_value_def)

theorem getDocumentContent_not_found_witness:
  "\<not> record_exists (stocked_world []) (lit ''507f1f77bcf86cd799439099'')
   \<and> fst (getDocumentContent (lit ''mongodb'') (lit ''507f1f77bcf86cd799439099'') (stocked_world []))
       = Inl not_found
   \<and> ObjectId_of_string (lit ''not-an-id'') = None
   \<and> getDocumentContent (lit ''mongodb'') (lit ''not-an-id'') (stocked_world [])
       = (Inl not_found, stocked_world [])"
proof -
  have absent: "\<not> record_exists (stocked_world []) (lit ''507f1f77bcf86cd799439099'')"
    by (simp add: record_exists_def parse_id stock)
  from getDocumentContent_not_found
      [of "stocked_world []" "lit ''507f1f77bcf86cd799439099''" "lit ''mongodb''"]
    getDocumentContent_not_found [of "stocked_world []" "lit ''not-an-id''" "lit ''mongodb''"]
    absent parse_id(4)
  show ?thesis
    by simp
qed

theorem getAllDocuments_newest_first_witness:
  "next_fault (stocked_world []) = None
   \<and> repo (stocked_world []) = [note1, note2, note3]
   \<and> createdAt note1 < createdAt note2 \<and> createdAt note2 < createdAt note3
   \<and> fst (getAllDocuments (stocked_world [])) = Inr [note3, note2, note1]
   \<and> fst (getAllDocuments (fresh_world [])) = Inr []"
proof -
  have ok: "next_fault (stocked_world []) = None" "next_fault (fresh_world []) = None"
    by (simp_all add: next_fault_def stocked_world_def fresh_world_def)
  from getAllDocuments_newest_first [OF ok(1)] getAllDocuments_newest_first [OF ok(2)] ok
  show ?thesis
    by (simp add: getAllDocuments_def repo_find_apply order_by_def stock fresh_world_def)
qed

lemma lookup_note2:
  "getDocumentById (lit ''507f1f77bcf86cd799439002'') (stocked_world fs)
     = (Inr (if fs = [] \<or> hd fs = None then Some note2 else None),
        called (RepoFindOneBy 0x507f1f77bcf86cd799439002) (stocked_world fs))"
  by (cases fs) (auto simp: getDocumentById_apply parse_id next_fault_def stock)

theorem deleteDocument_object_storage_witness:
  "fst (deleteDocument (lit ''s3'') (lit ''507f1f77bcf86cd799439002'')
      (stocked_world [None, Some (Error (lit ''S3 deletion failed''))]))
     = Inl (deletion_failed (lit ''Failed to delete file from S3: S3 deletion failed''))
   \<and> repo (snd (deleteDocument (lit ''s3'') (lit ''507f1f77bcf86cd799439002'')
      (stocked_world [None, Some (Error (lit ''S3 deletion failed''))]))) = [note1, note2, note3]
   \<and> bucket (snd (deleteDocument (lit ''s3'') (lit ''507f1f77bcf86cd799439002'')
      (stocked_world [None, Some (Error (lit ''S3 deletion failed''))])))
      (lit ''documents/2-x-b.txt'') = Some hello
   \<and> fst (deleteDocument (lit ''s3'') (lit ''507f1f77bcf86cd799439002'') (stocked_world []))
     = Inr ()
   \<and> repo (snd (deleteDocument (lit ''s3'') (lit ''507f1f77bcf86cd799439002'')
      (stocked_world []))) = [note1, note3]
   \<and> bucket (snd (deleteDocument (lit ''s3'') (lit ''507f1f77bcf86cd799439002'')
      (stocked_world []))) (lit ''documents/2-x-b.txt'') = None"
proof -
  let ?failing = "stocked_world [None, Some (Error (lit ''S3 deletion failed''))]"
  let ?found = "RepoFindOneBy 0x507f1f77bcf86cd799439002"
  have s3: "active_backend (lit ''s3'') = ObjectStorage"
    by (simp add: config_run)
  have key: "truthy (s3Key note2)"
    by (simp add: truthy_def note2_def lit_def)
  have found1: "getDocumentById (lit ''507f1f77bcf86cd799439002'') ?failing
      = (Inr (Some note2), called ?found ?failing)"
    and found2: "getDocumentById (lit ''507f1f77bcf86cd799439002'') (stocked_world [])
      = (Inr (Some note2), called ?found (stocked_world []))"
    by (simp_all add: lookup_note2)
  have fails: "next_fault (called ?found ?failing) = Some (Error (lit ''S3 deletion failed''))"
    and works: "no_faults 2 (called ?found (stocked_world []))"
    by (simp_all add: next_fault_def no_faults_def stocked_world_def)
  have msg: "lit ''Failed to delete file from S3: '' @ message_of (Error (lit ''S3 deletion failed''))
      = lit ''Failed to delete file from S3: S3 deletion failed''"
    by (simp add: message_of_def lit_def)
  have kept: "repo ?failing = [note1, note2, note3]"
    "bucket ?failing (lit ''documents/2-x-b.txt'') = Some hello"
    by (simp_all add: stocked_world_def)
  have k: "the (s3Key note2) = lit ''documents/2-x-b.txt''"
    by (simp add: note2_def)
  have left: "repo (snd (deleteDocument (lit ''s3'') (lit ''507f1f77bcf86cd799439002'')
      (stocked_world []))) = [note1, note3]"
    by (simp add: deleteDocument_def io_bind_apply found2)
      (simp add: service_run config_run stock)
  from deleteDocument_object_storage [OF s3 found1 key] fails
  obtain w' where aborted: "deleteDocument (lit ''s3'') (lit ''507f1f77bcf86cd799439002'') ?failing
      = (Inl (deletion_failed (lit ''Failed to delete file from S3: ''
           @ message_of (Error (lit ''S3 deletion failed'')))), w')"
      "repo w' = repo ?failing" "bucket w' = bucket ?failing"
    by blast
  from deleteDocument_object_storage [OF s3 found2 key] works
  obtain w'' where removed: "deleteDocument (lit ''s3'') (lit ''507f1f77bcf86cd799439002'')
      (stocked_world []) = (Inr (), w'')" "bucket w'' (the (s3Key note2)) = None"
    by blast
  from aborted removed msg kept k left show ?thesis
    by simp
qed

lemma lookup_note1:
  "getDocumentById (lit ''507f1f77bcf86cd799439001'') (stocked_world [])
     = (Inr (Some note1), called (RepoFindOneBy 0x507f1f77bcf86cd799439001) (stocked_world []))"
  by (simp add: getDocumentById_apply parse_id next_fault_def stock)

theorem deleteDocument_filesystem_best_effort_witness:
  "files (stocked_world []) (lit ''/tmp/a.txt'') = None
   \<and> fs_unlink (lit ''/tmp/a.txt'')
        (called (RepoFindOneBy 0x507f1f77bcf86cd799439001) (stocked_world []))
       = (Inl (ENOENT ''unlink'' (lit ''/tmp/a.txt'')),
          called (Unlink (lit ''/tmp/a.txt''))
            (called (RepoFindOneBy 0x507f1f77bcf86cd799439001) (stocked_world [])))
   \<and> fst (deleteDocument (lit ''filesystem'') (lit ''507f1f77bcf86cd799439001'') (stocked_world []))
       = Inr ()
   \<and> repo (snd (deleteDocument (lit ''filesystem'') (lit ''507f1f77bcf86cd799439001'')
        (stocked_world []))) = [note2, note3]"
proof -
  let ?w1 = "called (RepoFindOneBy 0x507f1f77bcf86cd799439001) (stocked_world [])"
  have fs: "active_backend (lit ''filesystem'') = Filesystem"
    by (simp add: config_run)
  have located: "truthy (path note1)" and p: "the (path note1) = lit ''/tmp/a.txt''"
    by (simp_all add: truthy_def note1_def lit_def)
  have gone: "files (stocked_world []) (lit ''/tmp/a.txt'') = None"
    by (simp add: stocked_world_def)
  have unlink: "fs_unlink (the (path note1)) ?w1
      = (Inl (ENOENT ''unlink'' (lit ''/tmp/a.txt'')), called (Unlink (lit ''/tmp/a.txt'')) ?w1)"
    by (simp add: p fs_unlink_apply next_fault_def gone) (simp add: stocked_world_def)
  have ok: "next_fault (called (Unlink (lit ''/tmp/a.txt'')) ?w1) = None"
    by (simp add: next_fault_def stocked_world_def)
  from deleteDocument_filesystem_best_effort [OF fs lookup_note1 located unlink] ok gone unlink p
  show ?thesis
    by (auto simp: io_catch_apply repo_delete_apply stock)
qed

end
